theory Spec2Isabelle
  imports Main
begin

section \<open>Python values and the operations the scripts use on them\<close>

text \<open>
  The scripts work on what \<^verbatim>\<open>json.loads\<close> returns: nested dicts, lists, strings, numbers,
  booleans and \<^verbatim>\<open>None\<close>. A dict is an association list whose keys are distinct (as
  \<^verbatim>\<open>json.loads\<close> builds it); numbers are integers (no floating point is modelled).
\<close>

datatype json =
    JNull
  | JBool bool
  | JNum int
  | JStr string
  | JArr "json list"
  | JObj "(string \<times> json) list"

text \<open>
  Every \<^verbatim>\<open>raise\<close> of the interpreter or of the scripts is a value. \<open>Exception msg\<close> is the
  \<^verbatim>\<open>Exception(f"HTTP {e.code}: {error_msg}")\<close> of \<^verbatim>\<open>_make_request\<close>; \<open>SystemExit c\<close> is
  \<^verbatim>\<open>sys.exit(c)\<close>, which \<^verbatim>\<open>except Exception\<close> does not catch.
\<close>

datatype exc =
    KeyError
  | TypeError
  | AttributeError
  | IndexError
  | UnicodeDecodeError
  | JSONDecodeError
  | URLError
  | Exception string
  | SystemExit nat

text \<open>\<^verbatim>\<open>bool(x)\<close>, as \<^verbatim>\<open>if x:\<close> and \<^verbatim>\<open>if not x:\<close> use it.\<close>

fun truthy :: "json \<Rightarrow> bool" where
  "truthy JNull = False"
| "truthy (JBool b) = b"
| "truthy (JNum n) = (n \<noteq> 0)"
| "truthy (JStr s) = (s \<noteq> [])"
| "truthy (JArr xs) = (xs \<noteq> [])"
| "truthy (JObj kvs) = (kvs \<noteq> [])"

text \<open>\<^verbatim>\<open>x[key]\<close> for a string key: only a dict can be subscripted by a string.\<close>

fun py_getitem :: "json \<Rightarrow> string \<Rightarrow> exc + json" where
  "py_getitem (JObj kvs) k = (case map_of kvs k of Some v \<Rightarrow> Inr v | None \<Rightarrow> Inl KeyError)"
| "py_getitem _ k = Inl TypeError"

text \<open>\<^verbatim>\<open>x.get(key, default)\<close>: only a dict has the method.\<close>

fun py_get :: "json \<Rightarrow> string \<Rightarrow> json \<Rightarrow> exc + json" where
  "py_get (JObj kvs) k d = (case map_of kvs k of Some v \<Rightarrow> Inr v | None \<Rightarrow> Inr d)"
| "py_get _ k d = Inl AttributeError"

text \<open>\<^verbatim>\<open>x[0]\<close>: the first element of a list, the first character of a string.\<close>

fun py_index0 :: "json \<Rightarrow> exc + json" where
  "py_index0 (JArr []) = Inl IndexError"
| "py_index0 (JArr (x # xs)) = Inr x"
| "py_index0 (JStr []) = Inl IndexError"
| "py_index0 (JStr (c # cs)) = Inr (JStr [c])"
| "py_index0 (JObj kvs) = Inl KeyError"
| "py_index0 _ = Inl TypeError"

text \<open>\<^verbatim>\<open>sub in s\<close> on strings: \<open>sub\<close> occurs in \<open>s\<close> as a contiguous block.\<close>

fun startswith :: "string \<Rightarrow> string \<Rightarrow> bool" where
  "startswith s [] = True"
| "startswith [] (c # cs) = False"
| "startswith (d # ds) (c # cs) = (d = c \<and> startswith ds cs)"

fun str_in :: "string \<Rightarrow> string \<Rightarrow> bool" where
  "str_in sub [] = (sub = [])"
| "str_in sub (c # cs) = (startswith (c # cs) sub \<or> str_in sub cs)"

text \<open>\<^verbatim>\<open>key in x\<close> for a string key.\<close>

fun py_contains :: "string \<Rightarrow> json \<Rightarrow> exc + bool" where
  "py_contains k (JObj kvs) = Inr (k \<in> fst ` set kvs)"
| "py_contains k (JArr xs) = Inr (JStr k \<in> set xs)"
| "py_contains k (JStr s) = Inr (str_in k s)"
| "py_contains k _ = Inl TypeError"

text \<open>
  \<^verbatim>\<open>x.lower()\<close>: only a string has the method. Python lower-cases by the Unicode tables;
  the function on strings is the parameter \<open>L\<close> (the field \<open>str_lower\<close> of a session below),
  so nothing here fixes what it does to any character.
\<close>

fun py_lower :: "(string \<Rightarrow> string) \<Rightarrow> json \<Rightarrow> exc + string" where
  "py_lower L (JStr s) = Inr (L s)"
| "py_lower L _ = Inl AttributeError"

text \<open>\<^verbatim>\<open>len(x)\<close>.\<close>

fun py_len :: "json \<Rightarrow> exc + nat" where
  "py_len (JStr s) = Inr (length s)"
| "py_len (JArr xs) = Inr (length xs)"
| "py_len (JObj kvs) = Inr (length kvs)"
| "py_len _ = Inl TypeError"

text \<open>
  \<^verbatim>\<open>for x in v\<close>: the elements of a list, the characters of a string, the keys of a dict.
\<close>

fun py_iter :: "json \<Rightarrow> exc + json list" where
  "py_iter (JArr xs) = Inr xs"
| "py_iter (JStr s) = Inr (map (\<lambda>c. JStr [c]) s)"
| "py_iter (JObj kvs) = Inr (map (\<lambda>kv. JStr (fst kv)) kvs)"
| "py_iter _ = Inl TypeError"

text \<open>\<^verbatim>\<open>str(n)\<close> for a natural number (a length, an HTTP status code, a counter).\<close>

definition digit :: "nat \<Rightarrow> char" where
  "digit n = ''0123456789'' ! n"

fun decimal :: "nat \<Rightarrow> string" where
  "decimal n = (if n < 10 then [digit n] else decimal (n div 10) @ [digit (n mod 10)])"

text \<open>Sequencing of computations that may raise.\<close>

definition ebind :: "exc + 'a \<Rightarrow> ('a \<Rightarrow> exc + 'b) \<Rightarrow> exc + 'b" where
  "ebind m f = (case m of Inl e \<Rightarrow> Inl e | Inr x \<Rightarrow> f x)"

text \<open>
  A \<^verbatim>\<open>for\<close> loop whose body tests the element and returns it on success: the first element
  the test accepts, \<open>None\<close> when the loop runs out, the exception when a test raises first.
\<close>

fun find_first :: "('a \<Rightarrow> exc + bool) \<Rightarrow> 'a list \<Rightarrow> exc + 'a option" where
  "find_first p [] = Inr None"
| "find_first p (x # xs) =
     (case p x of
        Inl e \<Rightarrow> Inl e
      | Inr True \<Rightarrow> Inr (Some x)
      | Inr False \<Rightarrow> find_first p xs)"

text \<open>Chained subscripts \<^verbatim>\<open>x[k1][k2]...\<close>, evaluated left to right.\<close>

fun py_path :: "json \<Rightarrow> string list \<Rightarrow> exc + json" where
  "py_path x [] = Inr x"
| "py_path x (k # ks) = ebind (py_getitem x k) (\<lambda>y. py_path y ks)"

section \<open>The remote server, the requests sent and the lines printed\<close>

datatype http_method = GET | POST | DELETE

datatype request = Request (verb: http_method) (url: string) (payload: "json option")

text \<open>
  What \<^verbatim>\<open>read().decode("utf-8")\<close> followed by \<^verbatim>\<open>json.loads\<close> makes of a body: the bytes are
  not UTF-8 (\<^verbatim>\<open>decode\<close> raises), the text is empty, the text is not JSON (\<^verbatim>\<open>json.loads\<close>
  raises), or it is the JSON value given.
\<close>

datatype body = NotUtf8 | Empty | NotJson | Json json

text \<open>
  What \<^verbatim>\<open>urlopen\<close> does with a request: it returns a response with a status and a body, it
  raises \<^verbatim>\<open>HTTPError\<close> (a status outside 2xx) with the code, the text \<^verbatim>\<open>str(e)\<close> and the
  error body, or it raises \<^verbatim>\<open>URLError\<close> (no connection).
\<close>

datatype reply = Status nat body | HttpFailure nat string body | NoConnection

text \<open>
  One process is a sequence of events: a request sent, a line printed on standard output,
  \<^verbatim>\<open>print(f"<prefix>{e}", file=sys.stderr)\<close> for a caught exception \<open>e\<close>, or a line of text
  printed on standard error.
\<close>

datatype event = Sent request | Stdout string | Stderr string exc | Stderr_text string

fun requests_of :: "event list \<Rightarrow> request list" where
  "requests_of [] = []"
| "requests_of (Sent r # es) = r # requests_of es"
| "requests_of (e # es) = requests_of es"

fun printed :: "event list \<Rightarrow> string list" where
  "printed [] = []"
| "printed (Stdout s # es) = s # printed es"
| "printed (e # es) = printed es"

definition mutating :: "request \<Rightarrow> bool" where
  "mutating r = (verb r = POST \<or> verb r = DELETE)"

text \<open>
  The client object and its surroundings: \<^verbatim>\<open>self.base_url\<close>; the server, which answers a
  request knowing the requests this process sent before; Python's \<^verbatim>\<open>str()\<close> on a value
  that is not a string, as an f-string applies it; and Python's \<^verbatim>\<open>str.lower()\<close>. The last
  three are parameters: every theorem below that does not name a particular session holds
  for all of them.
\<close>

record session =
  base_url :: string
  server :: "request list \<Rightarrow> request \<Rightarrow> reply"
  py_repr :: "json \<Rightarrow> string"
  str_lower :: "string \<Rightarrow> string"

definition py_str :: "session \<Rightarrow> json \<Rightarrow> string" where
  "py_str S v = (case v of JStr s \<Rightarrow> s | _ \<Rightarrow> py_repr S v)"

text \<open>
  A method of the client runs on the events so far and returns a value or raises, with the
  events extended.
\<close>

type_synonym 'a io = "event list \<Rightarrow> (exc + 'a) \<times> event list"

definition bind :: "'a io \<Rightarrow> ('a \<Rightarrow> 'b io) \<Rightarrow> 'b io" where
  "bind m f w = (case m w of (Inl e, w') \<Rightarrow> (Inl e, w') | (Inr x, w') \<Rightarrow> f x w')"

definition lift :: "exc + 'a \<Rightarrow> 'a io" where
  "lift r w = (r, w)"

definition print :: "string \<Rightarrow> unit io" where
  "print s w = (Inr (), w @ [Stdout s])"

definition print_err :: "string \<Rightarrow> exc \<Rightarrow> unit io" where
  "print_err prefix e w = (Inr (), w @ [Stderr prefix e])"


definition sys_exit :: "nat \<Rightarrow> 'a io" where
  "sys_exit c w = (Inl (SystemExit c), w)"

text \<open>\<^verbatim>\<open>try: ... except Exception as e: ...\<close>: every exception but \<^verbatim>\<open>SystemExit\<close> is caught.\<close>

definition try_except :: "'a io \<Rightarrow> (exc \<Rightarrow> 'a io) \<Rightarrow> 'a io" where
  "try_except m h w =
     (case m w of
        (Inl (SystemExit c), w') \<Rightarrow> (Inl (SystemExit c), w')
      | (Inl e, w') \<Rightarrow> h e w'
      | (Inr x, w') \<Rightarrow> (Inr x, w'))"

text \<open>A \<^verbatim>\<open>for\<close> loop whose body has effects; an exception ends it.\<close>

fun for_each :: "('a \<Rightarrow> unit io) \<Rightarrow> 'a list \<Rightarrow> unit io" where
  "for_each f [] = lift (Inr ())"
| "for_each f (x # xs) = bind (f x) (\<lambda>_. for_each f xs)"

definition nl :: string where
  "nl = [CHR 0x0A]"

definition apostrophe :: string where
  "apostrophe = [CHR 0x27]"

section \<open>The transport: \<^verbatim>\<open>_make_request\<close>\<close>

text \<open>
  The \<^verbatim>\<open>try\<close> block of the \<^verbatim>\<open>HTTPError\<close> handler:
  \<^verbatim>\<open>json.loads(error_body).get("errorMessages", [str(e)])[0]\<close>.
\<close>

definition error_messages_head :: "string \<Rightarrow> body \<Rightarrow> exc + json" where
  "error_messages_head str_e b =
     (case b of
        Json error_json \<Rightarrow>
          ebind (py_get error_json ''errorMessages'' (JArr [JStr str_e])) py_index0
      | _ \<Rightarrow> Inl JSONDecodeError)"

text \<open>With its bare \<^verbatim>\<open>except:\<close>, which sets \<^verbatim>\<open>error_msg = str(e)\<close>.\<close>

definition error_msg :: "string \<Rightarrow> body \<Rightarrow> json" where
  "error_msg str_e b = (case error_messages_head str_e b of Inr m \<Rightarrow> m | Inl _ \<Rightarrow> JStr str_e)"

text \<open>
  The \<^verbatim>\<open>except HTTPError as e\<close> handler, the same in both scripts. The body is decoded before
  the inner \<^verbatim>\<open>try\<close>, so a body that is not UTF-8 raises from the handler itself.
\<close>

definition http_error :: "session \<Rightarrow> nat \<Rightarrow> string \<Rightarrow> body \<Rightarrow> exc" where
  "http_error S code str_e b =
     (case b of
        NotUtf8 \<Rightarrow> UnicodeDecodeError
      | _ \<Rightarrow> Exception (''HTTP '' @ decimal code @ '': '' @ py_str S (error_msg str_e b)))"

text \<open>\<^verbatim>\<open>if data: request.data = ...\<close>: a body is attached when \<open>data\<close> is truthy.\<close>

definition attach :: "json option \<Rightarrow> json option" where
  "attach d = (case d of None \<Rightarrow> None | Some j \<Rightarrow> if truthy j then Some j else None)"

text \<open>\<^verbatim>\<open>JiraLinker._make_request\<close> (link\_ticket.py): an empty body is \<open>{}\<close>.\<close>

definition linker_make_request ::
  "session \<Rightarrow> string \<Rightarrow> http_method \<Rightarrow> json option \<Rightarrow> json io" where
  "linker_make_request S u m d w =
     (let req = Request m u (attach d); w' = w @ [Sent req] in
      case server S (requests_of w) req of
        Status st b \<Rightarrow>
          if st = 204 then (Inr (JObj []), w')
          else (case b of
                  NotUtf8 \<Rightarrow> (Inl UnicodeDecodeError, w')
                | Empty \<Rightarrow> (Inr (JObj []), w')
                | NotJson \<Rightarrow> (Inl JSONDecodeError, w')
                | Json j \<Rightarrow> (Inr j, w'))
      | HttpFailure code str_e b \<Rightarrow> (Inl (http_error S code str_e b), w')
      | NoConnection \<Rightarrow> (Inl URLError, w'))"

text \<open>
  \<^verbatim>\<open>JiraTransitioner._make_request\<close> (transition\_ticket.py): the body goes to
  \<^verbatim>\<open>json.loads\<close> unchecked, so an empty one raises.
\<close>

definition transitioner_make_request ::
  "session \<Rightarrow> string \<Rightarrow> http_method \<Rightarrow> json option \<Rightarrow> json io" where
  "transitioner_make_request S u m d w =
     (let req = Request m u (attach d); w' = w @ [Sent req] in
      case server S (requests_of w) req of
        Status st b \<Rightarrow>
          if st = 204 then (Inr (JObj []), w')
          else (case b of
                  NotUtf8 \<Rightarrow> (Inl UnicodeDecodeError, w')
                | Empty \<Rightarrow> (Inl JSONDecodeError, w')
                | NotJson \<Rightarrow> (Inl JSONDecodeError, w')
                | Json j \<Rightarrow> (Inr j, w'))
      | HttpFailure code str_e b \<Rightarrow> (Inl (http_error S code str_e b), w')
      | NoConnection \<Rightarrow> (Inl URLError, w'))"

section \<open>link\_ticket.py: \<^verbatim>\<open>JiraLinker\<close>\<close>

definition get_link_types :: "session \<Rightarrow> json io" where
  "get_link_types S =
     bind (linker_make_request S (base_url S @ ''/issueLinkType'') GET None)
       (\<lambda>response. lift (py_get response ''issueLinkTypes'' (JArr [])))"

text \<open>The tests of the three loops of \<^verbatim>\<open>find_link_type\<close>, in the order of the source.\<close>

definition name_is :: "session \<Rightarrow> string \<Rightarrow> json \<Rightarrow> exc + bool" where
  "name_is S name_lower lt =
     ebind (py_getitem lt ''name'') (\<lambda>n. ebind (py_lower (str_lower S) n) (\<lambda>l.
       Inr (l = name_lower)))"

definition name_has :: "session \<Rightarrow> string \<Rightarrow> json \<Rightarrow> exc + bool" where
  "name_has S name_lower lt =
     ebind (py_getitem lt ''name'') (\<lambda>n. ebind (py_lower (str_lower S) n) (\<lambda>l.
       Inr (str_in name_lower l)))"

text \<open>\<^verbatim>\<open>or\<close> evaluates its right operand only when the left one is false.\<close>

definition label_has :: "session \<Rightarrow> string \<Rightarrow> json \<Rightarrow> exc + bool" where
  "label_has S name_lower lt =
     ebind (py_getitem lt ''inward'') (\<lambda>i. ebind (py_lower (str_lower S) i) (\<lambda>il.
       if str_in name_lower il then Inr True
       else ebind (py_getitem lt ''outward'') (\<lambda>out. ebind (py_lower (str_lower S) out) (\<lambda>ol.
         Inr (str_in name_lower ol)))))"

text \<open>
  The three loops of \<^verbatim>\<open>find_link_type\<close>, on the catalog fetched: exact name, name containing
  the query, label containing the query.
\<close>

definition match_link_type :: "session \<Rightarrow> string \<Rightarrow> json \<Rightarrow> exc + json option" where
  "match_link_type S name link_types =
     (let name_lower = str_lower S name in
      ebind (py_iter link_types) (\<lambda>lts.
      ebind (find_first (name_is S name_lower) lts) (\<lambda>exact.
        case exact of
          Some lt \<Rightarrow> Inr (Some lt)
        | None \<Rightarrow>
            ebind (find_first (name_has S name_lower) lts) (\<lambda>partial.
              case partial of
                Some lt \<Rightarrow> Inr (Some lt)
              | None \<Rightarrow> find_first (label_has S name_lower) lts))))"

definition find_link_type :: "session \<Rightarrow> string \<Rightarrow> json option io" where
  "find_link_type S name =
     bind (get_link_types S) (\<lambda>link_types. lift (match_link_type S name link_types))"

definition linker_get_ticket :: "session \<Rightarrow> string \<Rightarrow> json io" where
  "linker_get_ticket S issue_key =
     linker_make_request S
       (base_url S @ ''/issue/'' @ issue_key @ ''?fields=summary,status,issuelinks'') GET None"

definition get_issue_links :: "session \<Rightarrow> string \<Rightarrow> json io" where
  "get_issue_links S issue_key =
     bind (linker_get_ticket S issue_key) (\<lambda>ticket.
       lift (ebind (py_get ticket ''fields'' (JObj [])) (\<lambda>fields.
         py_get fields ''issuelinks'' (JArr []))))"

text \<open>
  The payload of \<^verbatim>\<open>create_link\<close>: the dict \<open>data\<close>, with the comment added when it is a
  non-empty string.
\<close>

definition create_link_data :: "string \<Rightarrow> string \<Rightarrow> json \<Rightarrow> string option \<Rightarrow> json" where
  "create_link_data source_key target_key link_type_name comment =
     JObj ([(''type'', JObj [(''name'', link_type_name)]),
            (''outwardIssue'', JObj [(''key'', JStr target_key)]),
            (''inwardIssue'', JObj [(''key'', JStr source_key)])]
           @ (case comment of
                None \<Rightarrow> []
              | Some c \<Rightarrow> if c \<noteq> [] then [(''comment'', JObj [(''body'', JStr c)])] else []))"

definition create_link ::
  "session \<Rightarrow> string \<Rightarrow> string \<Rightarrow> json \<Rightarrow> string option \<Rightarrow> unit io" where
  "create_link S source_key target_key link_type_name comment =
     bind (linker_make_request S (base_url S @ ''/issueLink'') POST
             (Some (create_link_data source_key target_key link_type_name comment)))
       (\<lambda>_. lift (Inr ()))"

definition delete_link :: "session \<Rightarrow> string \<Rightarrow> unit io" where
  "delete_link S link_id =
     bind (linker_make_request S (base_url S @ ''/issueLink/'' @ link_id) DELETE None)
       (\<lambda>_. lift (Inr ()))"



definition error_exit :: "string \<Rightarrow> exc \<Rightarrow> 'a io" where
  "error_exit prefix e = bind (print_err prefix e) (\<lambda>_. sys_exit 1)"


definition execute_link ::
  "session \<Rightarrow> string \<Rightarrow> string \<Rightarrow> string \<Rightarrow> string option \<Rightarrow> bool \<Rightarrow> unit io" where
  "execute_link S source_key target_key link_type_name comment dry_run =
     try_except
       (bind (find_link_type S link_type_name) (\<lambda>found.
          case (case found of None \<Rightarrow> None | Some lt \<Rightarrow> if truthy lt then Some lt else None) of
            None \<Rightarrow>
              bind (print (''Error: Unknown link type '' @ apostrophe @ link_type_name
                           @ apostrophe)) (\<lambda>_.
              bind (print (nl @ ''Use --list-types to see available link types'')) (\<lambda>_.
                sys_exit 1))
          | Some link_type \<Rightarrow>
              bind (linker_get_ticket S source_key) (\<lambda>source_ticket.
              bind (linker_get_ticket S target_key) (\<lambda>target_ticket.
              bind (lift (py_path source_ticket [''fields'', ''summary''])) (\<lambda>source_summary.
              bind (lift (py_path target_ticket [''fields'', ''summary''])) (\<lambda>target_summary.
              bind (print (nl @ ''Source: '' @ source_key @ '': '' @ py_str S source_summary)) (\<lambda>_.
              bind (print (''Target: '' @ target_key @ '': '' @ py_str S target_summary)) (\<lambda>_.
              bind (lift (py_getitem link_type ''name'')) (\<lambda>name.
              bind (print (nl @ ''Link Type: '' @ py_str S name)) (\<lambda>_.
              bind (lift (py_getitem link_type ''outward'')) (\<lambda>outward.
              bind (print (''  '' @ source_key @ '' '' @ py_str S outward @ '' '' @ target_key)) (\<lambda>_.
              bind (lift (py_getitem link_type ''inward'')) (\<lambda>inward.
              bind (print (''  '' @ target_key @ '' '' @ py_str S inward @ '' '' @ source_key)) (\<lambda>_.
              bind (case comment of
                      None \<Rightarrow> lift (Inr ())
                    | Some c \<Rightarrow> if c \<noteq> [] then print (nl @ ''Comment: '' @ c)
                                else lift (Inr ())) (\<lambda>_.
                if dry_run then print (nl @ ''Dry run: No changes made'')
                else
                  bind (lift (py_getitem link_type ''name'')) (\<lambda>name'.
                  bind (create_link S source_key target_key name' comment) (\<lambda>_.
                    print (nl @ ''Link created successfully!''))))))))))))))))))
       (error_exit ''Error: '')"

text \<open>
  The direction rule of \<^verbatim>\<open>execute_remove\<close>, written out a second time in the source: the label
  and the key of the linked issue.
\<close>

definition remove_direction :: "json \<Rightarrow> exc + json \<times> json" where
  "remove_direction target_link =
     ebind (py_contains ''outwardIssue'' target_link) (\<lambda>outward.
       if outward then
         ebind (py_path target_link [''type'', ''outward'']) (\<lambda>direction.
         ebind (py_path target_link [''outwardIssue'', ''key'']) (\<lambda>linked_key.
           Inr (direction, linked_key)))
       else
         ebind (py_path target_link [''type'', ''inward'']) (\<lambda>direction.
         ebind (py_path target_link [''inwardIssue'', ''key'']) (\<lambda>linked_key.
           Inr (direction, linked_key))))"

text \<open>The test of the search loop: \<^verbatim>\<open>str(link["id"]) == str(link_id)\<close>.\<close>

definition has_id :: "session \<Rightarrow> string \<Rightarrow> json \<Rightarrow> exc + bool" where
  "has_id S link_id link = ebind (py_getitem link ''id'') (\<lambda>i. Inr (py_str S i = link_id))"

definition execute_remove :: "session \<Rightarrow> string \<Rightarrow> string \<Rightarrow> unit io" where
  "execute_remove S issue_key link_id =
     try_except
       (bind (get_issue_links S issue_key) (\<lambda>links.
        bind (lift (ebind (py_iter links) (find_first (has_id S link_id)))) (\<lambda>found.
          case (case found of None \<Rightarrow> None | Some l \<Rightarrow> if truthy l then Some l else None) of
            None \<Rightarrow>
              bind (print (''Error: Link ID '' @ link_id @ '' not found on '' @ issue_key)) (\<lambda>_.
              bind (print (nl @ ''Use --list to see existing links and their IDs'')) (\<lambda>_.
                sys_exit 1))
          | Some target_link \<Rightarrow>
              bind (lift (py_path target_link [''type'', ''name''])) (\<lambda>link_type.
              bind (lift (remove_direction target_link)) (\<lambda>(direction, linked_key).
              bind (print (nl @ ''Removing link from '' @ issue_key @ '':'')) (\<lambda>_.
              bind (print (''  Link ID: '' @ link_id)) (\<lambda>_.
              bind (print (''  Type: '' @ py_str S link_type)) (\<lambda>_.
              bind (print (''  '' @ py_str S direction @ '' '' @ py_str S linked_key)) (\<lambda>_.
              bind (delete_link S link_id) (\<lambda>_.
                print (nl @ ''Link removed successfully!'')))))))))))
       (error_exit ''Error: '')"




section \<open>transition\_ticket.py: \<^verbatim>\<open>JiraTransitioner\<close>\<close>

text \<open>The symbols the script prints, as their UTF-8 bytes.\<close>

definition clipboard :: string where
  "clipboard = [CHR 0xF0, CHR 0x9F, CHR 0x93, CHR 0x8B]"

definition cross_mark :: string where
  "cross_mark = [CHR 0xE2, CHR 0x9D, CHR 0x8C]"

definition magnifier :: string where
  "magnifier = [CHR 0xF0, CHR 0x9F, CHR 0x94, CHR 0x8D]"

definition check_mark :: string where
  "check_mark = [CHR 0xE2, CHR 0x9C, CHR 0x85]"

definition arrow :: string where
  "arrow = [CHR 0xE2, CHR 0x86, CHR 0x92]"

definition transitioner_get_ticket :: "session \<Rightarrow> string \<Rightarrow> json io" where
  "transitioner_get_ticket S issue_key =
     transitioner_make_request S (base_url S @ ''/issue/'' @ issue_key) GET None"

definition get_transitions :: "session \<Rightarrow> string \<Rightarrow> json io" where
  "get_transitions S issue_key =
     bind (transitioner_make_request S (base_url S @ ''/issue/'' @ issue_key @ ''/transitions'')
             GET None)
       (\<lambda>response. lift (py_get response ''transitions'' (JArr [])))"

text \<open>\<^verbatim>\<open>return (transition["id"], transition["name"])\<close>.\<close>

definition id_and_name :: "json \<Rightarrow> exc + json \<times> json" where
  "id_and_name transition =
     ebind (py_getitem transition ''id'') (\<lambda>i.
     ebind (py_getitem transition ''name'') (\<lambda>n. Inr (i, n)))"

text \<open>The two loops of \<^verbatim>\<open>find_transition\<close>, on the transitions fetched.\<close>

definition match_transition ::
  "session \<Rightarrow> string \<Rightarrow> json \<Rightarrow> exc + (json \<times> json) option" where
  "match_transition S target_status transitions =
     (let target_lower = str_lower S target_status in
      ebind (py_iter transitions) (\<lambda>ts.
      ebind (find_first (name_is S target_lower) ts) (\<lambda>exact.
        case exact of
          Some t \<Rightarrow> ebind (id_and_name t) (\<lambda>r. Inr (Some r))
        | None \<Rightarrow>
            ebind (find_first (name_has S target_lower) ts) (\<lambda>partial.
              case partial of
                Some t \<Rightarrow> ebind (id_and_name t) (\<lambda>r. Inr (Some r))
              | None \<Rightarrow> Inr None))))"

definition find_transition :: "session \<Rightarrow> string \<Rightarrow> string \<Rightarrow> (json \<times> json) option io" where
  "find_transition S issue_key target_status =
     bind (get_transitions S issue_key) (\<lambda>transitions.
       lift (match_transition S target_status transitions))"

definition transition_ticket :: "session \<Rightarrow> string \<Rightarrow> json \<Rightarrow> unit io" where
  "transition_ticket S issue_key transition_id =
     bind (transitioner_make_request S (base_url S @ ''/issue/'' @ issue_key @ ''/transitions'')
             POST (Some (JObj [(''transition'', JObj [(''id'', transition_id)])])))
       (\<lambda>_. lift (Inr ()))"

text \<open>\<^verbatim>\<open>t.get("to", {}).get("name", dflt)\<close>.\<close>

definition to_name :: "json \<Rightarrow> json \<Rightarrow> exc + json" where
  "to_name t dflt = ebind (py_get t ''to'' (JObj [])) (\<lambda>to. py_get to ''name'' dflt)"

text \<open>The body of the loop that lists the transitions when none was found.\<close>

definition show_transition :: "session \<Rightarrow> json \<Rightarrow> unit io" where
  "show_transition S t =
     bind (lift (to_name t (JStr ''Unknown''))) (\<lambda>to_status.
     bind (lift (py_getitem t ''name'')) (\<lambda>name.
       print (''  - '' @ py_str S name @ '' '' @ arrow @ '' '' @ py_str S to_status)))"

text \<open>
  The loop that looks the destination status up: \<open>to_status\<close> stays \<^verbatim>\<open>None\<close> when no
  transition has the id. Ids are compared as JSON values.
\<close>

definition id_is :: "json \<Rightarrow> json \<Rightarrow> exc + bool" where
  "id_is transition_id t = ebind (py_getitem t ''id'') (\<lambda>i. Inr (i = transition_id))"

definition lookup_to_status :: "json \<Rightarrow> string \<Rightarrow> json \<Rightarrow> exc + json" where
  "lookup_to_status transition_id target_status transitions =
     ebind (py_iter transitions) (\<lambda>ts.
     ebind (find_first (id_is transition_id) ts) (\<lambda>found.
       case found of
         None \<Rightarrow> Inr JNull
       | Some t \<Rightarrow> to_name t (JStr target_status)))"

definition execute_transition :: "session \<Rightarrow> string \<Rightarrow> string \<Rightarrow> bool \<Rightarrow> unit io" where
  "execute_transition S issue_key target_status dry_run =
     try_except
       (bind (transitioner_get_ticket S issue_key) (\<lambda>ticket.
        bind (lift (py_path ticket [''fields'', ''status'', ''name''])) (\<lambda>current_status.
        bind (lift (py_path ticket [''fields'', ''summary''])) (\<lambda>summary.
        bind (print (nl @ clipboard @ '' '' @ issue_key @ '': '' @ py_str S summary)) (\<lambda>_.
        bind (print (''Current Status: '' @ py_str S current_status)) (\<lambda>_.
        bind (find_transition S issue_key target_status) (\<lambda>result.
          case result of
            None \<Rightarrow>
              bind (print (nl @ cross_mark @ '' Cannot transition to '' @ apostrophe
                           @ target_status @ apostrophe)) (\<lambda>_.
              bind (print (nl @ ''Available transitions:'')) (\<lambda>_.
              bind (get_transitions S issue_key) (\<lambda>transitions.
              bind (lift (py_iter transitions)) (\<lambda>ts.
              bind (for_each (show_transition S) ts) (\<lambda>_.
                sys_exit 1)))))
          | Some (transition_id, transition_name) \<Rightarrow>
              bind (get_transitions S issue_key) (\<lambda>transitions.
              bind (lift (lookup_to_status transition_id target_status transitions)) (\<lambda>to_status.
                if dry_run then
                  bind (print (nl @ magnifier @ '' Dry run: Would transition to '' @ apostrophe
                               @ py_str S to_status @ apostrophe)) (\<lambda>_.
                    print (''   Using transition: '' @ py_str S transition_name @ '' (ID: ''
                           @ py_str S transition_id @ '')''))
                else
                  bind (print (''Transitioning to: '' @ py_str S to_status)) (\<lambda>_.
                  bind (transition_ticket S issue_key transition_id) (\<lambda>_.
                  bind (transitioner_get_ticket S issue_key) (\<lambda>updated_ticket.
                  bind (lift (py_path updated_ticket [''fields'', ''status'', ''name'']))
                    (\<lambda>new_status.
                    print (check_mark @ '' Success! Status: '' @ py_str S current_status
                           @ '' '' @ arrow @ '' '' @ py_str S new_status))))))))))))))
       (error_exit (cross_mark @ '' Error: ''))"


section \<open>view\_ticket.py: the comments of \<^verbatim>\<open>JiraViewer.display_ticket\<close>\<close>

text \<open>\<^verbatim>\<open>s.replace("Z", "+00:00")\<close>.\<close>

definition replace_z :: "string \<Rightarrow> string" where
  "replace_z s = concat (map (\<lambda>c. if c = CHR ''Z'' then ''+00:00'' else [c]) s)"

text \<open>
  \<^verbatim>\<open>format_date\<close>. The library call
  \<^verbatim>\<open>datetime.fromisoformat(...).strftime("%Y-%m-%d %H:%M")\<close> is the parameter \<open>isofmt\<close>, \<open>None\<close> when
  it raises; the bare \<^verbatim>\<open>except:\<close> then returns the argument as it came.
\<close>

definition format_date :: "(string \<Rightarrow> string option) \<Rightarrow> json \<Rightarrow> json" where
  "format_date isofmt date_string =
     (if \<not> truthy date_string then JStr ''Unknown''
      else case date_string of
             JStr s \<Rightarrow> (case isofmt (replace_z s) of Some r \<Rightarrow> JStr r | None \<Rightarrow> date_string)
           | _ \<Rightarrow> date_string)"

text \<open>
  \<^verbatim>\<open>comments[-5:]\<close>, as the loop runs over it. A dict cannot be sliced (the exception is a
  \<^verbatim>\<open>TypeError\<close> before Python 3.12).
\<close>

fun last_five :: "json \<Rightarrow> exc + json list" where
  "last_five (JArr xs) = Inr (drop (length xs - 5) xs)"
| "last_five (JStr s) = Inr (map (\<lambda>c. JStr [c]) (drop (length s - 5) s))"
| "last_five _ = Inl TypeError"

text \<open>\<^verbatim>\<open>body[:200]\<close>.\<close>

fun first_200 :: "json \<Rightarrow> exc + json" where
  "first_200 (JStr s) = Inr (JStr (take 200 s))"
| "first_200 (JArr xs) = Inr (JArr (take 200 xs))"
| "first_200 _ = Inl TypeError"

text \<open>\<^verbatim>\<open>if isinstance(body, dict): body = str(body)\<close>.\<close>

definition body_text :: "session \<Rightarrow> json \<Rightarrow> json" where
  "body_text S body = (case body of JObj kvs \<Rightarrow> JStr (py_repr S body) | _ \<Rightarrow> body)"

text \<open>The body of the loop over \<^verbatim>\<open>enumerate(comments[-5:], 1)\<close>.\<close>

definition show_comment :: "session \<Rightarrow> (string \<Rightarrow> string option) \<Rightarrow> nat \<times> json \<Rightarrow> unit io" where
  "show_comment S isofmt ic =
     (case ic of (i, comment) \<Rightarrow>
       bind (lift (ebind (py_get comment ''author'' (JObj [])) (\<lambda>a.
               py_get a ''displayName'' (JStr ''Unknown'')))) (\<lambda>author.
       bind (lift (py_get comment ''created'' (JStr []))) (\<lambda>created_raw.
       bind (lift (py_get comment ''body'' (JStr ''(empty)''))) (\<lambda>body_raw.
         let created = format_date isofmt created_raw; body = body_text S body_raw in
         bind (print (nl @ decimal i @ ''. '' @ py_str S author @ '' ('' @ py_str S created
                      @ ''):'')) (\<lambda>_.
         bind (lift (first_200 body)) (\<lambda>shown.
         bind (print (''   '' @ py_str S shown)) (\<lambda>_.
           if length (py_str S body) > 200 then print ''   ... (truncated)''
           else lift (Inr ()))))))))"

text \<open>
  The block \<^verbatim>\<open># Comments\<close> of \<^verbatim>\<open>display_ticket\<close>, run on the dict \<^verbatim>\<open>fields\<close> of the ticket.
\<close>

definition display_comments ::
  "session \<Rightarrow> (string \<Rightarrow> string option) \<Rightarrow> bool \<Rightarrow> json \<Rightarrow> unit io" where
  "display_comments S isofmt full ticket_fields =
     (if full then
        bind (lift (ebind (py_get ticket_fields ''comment'' (JObj [])) (\<lambda>c.
                py_get c ''comments'' (JArr [])))) (\<lambda>comments.
          if truthy comments then
            bind (lift (py_len comments)) (\<lambda>n.
            bind (print (nl @ ''Comments ('' @ decimal n @ '' total):'')) (\<lambda>_.
            bind (print (replicate 80 CHR ''-'')) (\<lambda>_.
            bind (lift (last_five comments)) (\<lambda>cs.
              for_each (show_comment S isofmt) (zip [1 ..< Suc (length cs)] cs)))))
          else print (nl @ ''Comments: None''))
      else lift (Inr ()))"

section \<open>The matching policy as the specification words it\<close>

text \<open>
  A catalog entry as the data model has it: a dict whose name (and, for a link type, whose
  two direction labels) are strings.
\<close>

definition str_field :: "json \<Rightarrow> string \<Rightarrow> string option" where
  "str_field x k =
     (case x of
        JObj kvs \<Rightarrow> (case map_of kvs k of Some (JStr s) \<Rightarrow> Some s | _ \<Rightarrow> None)
      | _ \<Rightarrow> None)"

definition link_type_ok :: "json \<Rightarrow> bool" where
  "link_type_ok lt =
     (str_field lt ''name'' \<noteq> None \<and> str_field lt ''inward'' \<noteq> None
      \<and> str_field lt ''outward'' \<noteq> None)"

definition transition_ok :: "json \<Rightarrow> bool" where
  "transition_ok t = (str_field t ''name'' \<noteq> None \<and> py_getitem t ''id'' \<noteq> Inl KeyError)"

text \<open>
  Tier 1: exact case-insensitive match against the canonical name. Two strings match
  case-insensitively when \<^verbatim>\<open>str.lower()\<close> makes them equal.
\<close>

definition exact_tier :: "session \<Rightarrow> string \<Rightarrow> json list \<Rightarrow> json list" where
  "exact_tier S query catalog =
     filter (\<lambda>e. case str_field e ''name'' of
                   Some n \<Rightarrow> str_lower S n = str_lower S query
                 | None \<Rightarrow> False) catalog"

text \<open>Tier 2: the query is a case-insensitive substring of the canonical name.\<close>

definition substring_tier :: "session \<Rightarrow> string \<Rightarrow> json list \<Rightarrow> json list" where
  "substring_tier S query catalog =
     filter (\<lambda>e. case str_field e ''name'' of
                   Some n \<Rightarrow> str_in (str_lower S query) (str_lower S n)
                 | None \<Rightarrow> False) catalog"

text \<open>Tier 3: the query is a case-insensitive substring of either direction label.\<close>

definition label_tier :: "session \<Rightarrow> string \<Rightarrow> json list \<Rightarrow> json list" where
  "label_tier S query catalog =
     filter (\<lambda>e. (case str_field e ''inward'' of
                    Some l \<Rightarrow> str_in (str_lower S query) (str_lower S l)
                  | None \<Rightarrow> False)
                \<or> (case str_field e ''outward'' of
                      Some l \<Rightarrow> str_in (str_lower S query) (str_lower S l)
                    | None \<Rightarrow> False)) catalog"

text \<open>
  The first tier that yields a candidate wins, and its first candidate (in catalog order)
  wins; no tier with a candidate is \<open>NotFound\<close>.
\<close>

fun first_tier_first :: "'a list list \<Rightarrow> 'a option" where
  "first_tier_first [] = None"
| "first_tier_first ([] # tiers) = first_tier_first tiers"
| "first_tier_first ((x # xs) # tiers) = Some x"




section \<open>Example data\<close>

text \<open>The catalog of the specification's example, in its order.\<close>

definition lt_blocks :: json where
  "lt_blocks = JObj [(''id'', JStr ''10000''), (''name'', JStr ''Blocks''),
                     (''inward'', JStr ''is blocked by''), (''outward'', JStr ''blocks'')]"

definition lt_blocked_by :: json where
  "lt_blocked_by = JObj [(''id'', JStr ''10001''), (''name'', JStr ''Blocked by''),
                         (''inward'', JStr ''blocks''), (''outward'', JStr ''is blocked by'')]"

definition lt_relates :: json where
  "lt_relates = JObj [(''id'', JStr ''10002''), (''name'', JStr ''Relates''),
                      (''inward'', JStr ''relates to''), (''outward'', JStr ''relates to'')]"

text \<open>A workflow with two transitions out of the current status.\<close>

definition tr_start :: json where
  "tr_start = JObj [(''id'', JStr ''21''), (''name'', JStr ''Start Progress''),
                    (''to'', JObj [(''name'', JStr ''In Progress'')])]"

definition tr_done :: json where
  "tr_done = JObj [(''id'', JStr ''31''), (''name'', JStr ''Done''),
                   (''to'', JObj [(''name'', JStr ''Closed'')])]"

text \<open>The value under a key of a catalog entry (\<open>JNull\<close> when there is none).\<close>

definition field_of :: "json \<Rightarrow> string \<Rightarrow> json" where
  "field_of x k = (case py_getitem x k of Inr v \<Rightarrow> v | Inl _ \<Rightarrow> JNull)"

text \<open>
  A small server for the examples. It keeps the wire convention for links: the link made by
  a POST shows, on the issue that was put in the inward slot, an \<^verbatim>\<open>outwardIssue\<close> reference to
  the issue of the outward slot, and on that one an \<^verbatim>\<open>inwardIssue\<close> reference back. A
  transition closes the ticket whatever its name.
\<close>

definition demo_url :: string where
  "demo_url = ''https://jira.example/rest/api/3''"

definition demo_catalog :: "json list" where
  "demo_catalog = [lt_blocks, lt_blocked_by, lt_relates]"

fun demo_link :: "request list \<Rightarrow> json option \<Rightarrow> json option" where
  "demo_link [] cur = cur"
| "demo_link (r # rs) cur =
     demo_link rs
       (if verb r = POST \<and> url r = demo_url @ ''/issueLink'' then payload r
        else if verb r = DELETE \<and> url r = demo_url @ ''/issueLink/5001'' then None
        else cur)"

definition demo_type :: "json \<Rightarrow> json" where
  "demo_type n =
     (case find (\<lambda>lt. field_of lt ''name'' = n) demo_catalog of
        Some lt \<Rightarrow> lt
      | None \<Rightarrow> lt_relates)"

definition demo_summary :: "json \<Rightarrow> json" where
  "demo_summary k = (if k = JStr ''A-1'' then JStr ''Fix login'' else JStr ''Update docs'')"

definition demo_peer :: "json \<Rightarrow> json" where
  "demo_peer k =
     JObj [(''key'', k),
           (''fields'', JObj [(''summary'', demo_summary k),
                              (''status'', JObj [(''name'', JStr ''Open'')])])]"

definition demo_issue_links :: "request list \<Rightarrow> string \<Rightarrow> json list" where
  "demo_issue_links history k =
     (case demo_link history None of
        None \<Rightarrow> []
      | Some p \<Rightarrow>
          if field_of (field_of p ''inwardIssue'') ''key'' = JStr k then
            [JObj [(''id'', JStr ''5001''),
                   (''type'', demo_type (field_of (field_of p ''type'') ''name'')),
                   (''outwardIssue'', demo_peer (field_of (field_of p ''outwardIssue'') ''key''))]]
          else if field_of (field_of p ''outwardIssue'') ''key'' = JStr k then
            [JObj [(''id'', JStr ''5001''),
                   (''type'', demo_type (field_of (field_of p ''type'') ''name'')),
                   (''inwardIssue'', demo_peer (field_of (field_of p ''inwardIssue'') ''key''))]]
          else [])"

definition demo_status :: "request list \<Rightarrow> json" where
  "demo_status history =
     (if list_ex (\<lambda>r. verb r = POST \<and> url r = demo_url @ ''/issue/A-1/transitions'') history
      then JStr ''Closed'' else JStr ''Open'')"

definition demo_not_found :: reply where
  "demo_not_found =
     HttpFailure 404 ''HTTP Error 404: Not Found''
       (Json (JObj [(''errorMessages'', JArr [JStr ''Issue does not exist'']),
                    (''errors'', JObj [])]))"

definition demo_server :: "request list \<Rightarrow> request \<Rightarrow> reply" where
  "demo_server history r =
     (if verb r = GET then
        if url r = demo_url @ ''/issueLinkType'' then
          Status 200 (Json (JObj [(''issueLinkTypes'', JArr demo_catalog)]))
        else if url r = demo_url @ ''/issue/A-1?fields=summary,status,issuelinks'' then
          Status 200 (Json (JObj [(''key'', JStr ''A-1''),
            (''fields'', JObj [(''summary'', JStr ''Fix login''),
                               (''status'', JObj [(''name'', JStr ''Open'')]),
                               (''issuelinks'', JArr (demo_issue_links history ''A-1''))])]))
        else if url r = demo_url @ ''/issue/B-2?fields=summary,status,issuelinks'' then
          Status 200 (Json (JObj [(''key'', JStr ''B-2''),
            (''fields'', JObj [(''summary'', JStr ''Update docs''),
                               (''status'', JObj [(''name'', JStr ''Open'')]),
                               (''issuelinks'', JArr (demo_issue_links history ''B-2''))])]))
        else if url r = demo_url @ ''/issue/A-1'' then
          Status 200 (Json (JObj [(''key'', JStr ''A-1''),
            (''fields'', JObj [(''summary'', JStr ''Fix login''),
                               (''status'', JObj [(''name'', demo_status history)])])]))
        else if url r = demo_url @ ''/issue/A-1/transitions'' then
          Status 200 (Json (JObj [(''transitions'', JArr [tr_start, tr_done])]))
        else demo_not_found
      else if verb r = POST then
        if url r = demo_url @ ''/issueLink'' then Status 201 Empty
        else if url r = demo_url @ ''/issue/A-1/transitions'' then Status 204 Empty
        else demo_not_found
      else
        if url r = demo_url @ ''/issueLink/5001'' \<and> demo_link history None \<noteq> None
        then Status 204 Empty
        else demo_not_found)"

text \<open>
  \<^verbatim>\<open>str.lower()\<close> on strings of ASCII characters, which is all the examples hold: the capital
  letters A to Z become small.
\<close>

definition ascii_lower_char :: "char \<Rightarrow> char" where
  "ascii_lower_char c =
     (case map_of (zip ''ABCDEFGHIJKLMNOPQRSTUVWXYZ'' ''abcdefghijklmnopqrstuvwxyz'') c of
        Some d \<Rightarrow> d
      | None \<Rightarrow> c)"

definition ascii_lower :: "string \<Rightarrow> string" where
  "ascii_lower s = map ascii_lower_char s"

definition demo :: session where
  "demo = \<lparr>base_url = demo_url, server = demo_server, py_repr = (\<lambda>v. ''<value>''),
            str_lower = ascii_lower\<rparr>"


section \<open>Predicates on runs\<close>

text \<open>
  Run from the events \<open>w\<close>, the computation \<open>m\<close> extends them, and every request it sends
  satisfies \<open>Q\<close>.
\<close>

definition sends_only :: "'a io \<Rightarrow> event list \<Rightarrow> (request \<Rightarrow> bool) \<Rightarrow> bool" where
  "sends_only m w Q = (\<exists>es. snd (m w) = w @ es \<and> list_all Q (requests_of es))"

text \<open>
  The requests \<open>b\<close> are the requests \<open>a\<close>, followed by nothing or by requests the first of which
  is a mutation.
\<close>

definition extended_by_mutation :: "request list \<Rightarrow> request list \<Rightarrow> bool" where
  "extended_by_mutation a b = (\<exists>rs. b = a @ rs \<and> (rs = [] \<or> mutating (hd rs)))"

text \<open>
  The same for two computations run from the same events: what the second sends is what the
  first sends, extended by nothing or from a mutation on.
\<close>

definition mutation_extends :: "'a io \<Rightarrow> 'a io \<Rightarrow> event list \<Rightarrow> bool" where
  "mutation_extends m m' w =
     extended_by_mutation (requests_of (snd (m w))) (requests_of (snd (m' w)))"

text \<open>
  The events of creating the link "A-1 blocks B-2" on that server, and what the server then
  shows of A-1.
\<close>

definition demo_created :: "event list" where
  "demo_created = snd (execute_link demo ''A-1'' ''B-2'' ''blocks'' None False [])"

definition demo_link_a :: json where
  "demo_link_a = JObj [(''id'', JStr ''5001''), (''type'', lt_blocks),
                       (''outwardIssue'', demo_peer (JStr ''B-2''))]"

definition demo_fields_a :: json where
  "demo_fields_a = JObj [(''summary'', JStr ''Fix login''),
                         (''status'', JObj [(''name'', JStr ''Open'')]),
                         (''issuelinks'', JArr [demo_link_a])]"

definition demo_ticket_a :: json where
  "demo_ticket_a = JObj [(''key'', JStr ''A-1''), (''fields'', demo_fields_a)]"

text \<open>A link that has an id, and not the one asked for.\<close>

definition other_id :: "session \<Rightarrow> string \<Rightarrow> json \<Rightarrow> bool" where
  "other_id S link_id l =
     (case py_getitem l ''id'' of Inr i \<Rightarrow> py_str S i \<noteq> link_id | Inl _ \<Rightarrow> False)"








section \<open>The resolver\<close>

lemma find_first_filter:
  "(\<And>x. x \<in> set xs \<Longrightarrow> p x = Inr (q x)) \<Longrightarrow>
   find_first p xs = Inr (case filter q xs of [] \<Rightarrow> None | y # _ \<Rightarrow> Some y)"
  by (induction xs) auto

lemma name_is_ok:
  "str_field e ''name'' = Some n \<Longrightarrow> name_is S ql e = Inr (str_lower S n = ql)"
  by (auto simp: str_field_def name_is_def ebind_def split: json.splits option.splits)

lemma name_has_ok:
  "str_field e ''name'' = Some n \<Longrightarrow> name_has S ql e = Inr (str_in ql (str_lower S n))"
  by (auto simp: str_field_def name_has_def ebind_def split: json.splits option.splits)

lemma label_has_ok:
  "str_field e ''inward'' = Some i \<Longrightarrow> str_field e ''outward'' = Some out \<Longrightarrow>
   label_has S ql e = Inr (str_in ql (str_lower S i) \<or> str_in ql (str_lower S out))"
  by (auto simp: str_field_def label_has_def ebind_def split: json.splits option.splits)

lemma find_exact:
  assumes "\<And>e. e \<in> set c \<Longrightarrow> str_field e ''name'' \<noteq> None"
  shows "find_first (name_is S (str_lower S q)) c =
         Inr (case exact_tier S q c of [] \<Rightarrow> None | y # _ \<Rightarrow> Some y)"
  unfolding exact_tier_def
proof (rule find_first_filter)
  fix x assume "x \<in> set c"
  then obtain n where "str_field x ''name'' = Some n"
    using assms by blast
  then show "name_is S (str_lower S q) x =
             Inr (case str_field x ''name'' of Some n \<Rightarrow> str_lower S n = str_lower S q
                  | None \<Rightarrow> False)"
    by (simp add: name_is_ok)
qed

lemma find_substring:
  assumes "\<And>e. e \<in> set c \<Longrightarrow> str_field e ''name'' \<noteq> None"
  shows "find_first (name_has S (str_lower S q)) c =
         Inr (case substring_tier S q c of [] \<Rightarrow> None | y # _ \<Rightarrow> Some y)"
  unfolding substring_tier_def
proof (rule find_first_filter)
  fix x assume "x \<in> set c"
  then obtain n where "str_field x ''name'' = Some n"
    using assms by blast
  then show "name_has S (str_lower S q) x =
             Inr (case str_field x ''name'' of
                    Some n \<Rightarrow> str_in (str_lower S q) (str_lower S n)
                  | None \<Rightarrow> False)"
    by (simp add: name_has_ok)
qed

lemma find_label:
  assumes "\<And>e. e \<in> set c \<Longrightarrow> link_type_ok e"
  shows "find_first (label_has S (str_lower S q)) c =
         Inr (case label_tier S q c of [] \<Rightarrow> None | y # _ \<Rightarrow> Some y)"
  unfolding label_tier_def
proof (rule find_first_filter)
  fix x assume "x \<in> set c"
  then have "link_type_ok x"
    using assms by blast
  then obtain i out where "str_field x ''inward'' = Some i" "str_field x ''outward'' = Some out"
    by (auto simp: link_type_ok_def)
  then show "label_has S (str_lower S q) x =
             Inr ((case str_field x ''inward'' of
                     Some l \<Rightarrow> str_in (str_lower S q) (str_lower S l)
                   | None \<Rightarrow> False)
                  \<or> (case str_field x ''outward'' of
                        Some l \<Rightarrow> str_in (str_lower S q) (str_lower S l)
                      | None \<Rightarrow> False))"
    by (simp add: label_has_ok)
qed

lemma match_link_type_tiers:
  assumes "\<And>e. e \<in> set c \<Longrightarrow> link_type_ok e"
  shows "match_link_type S q (JArr c) =
         Inr (first_tier_first [exact_tier S q c, substring_tier S q c, label_tier S q c])"
proof -
  have n: "\<And>e. e \<in> set c \<Longrightarrow> str_field e ''name'' \<noteq> None"
    using assms by (simp add: link_type_ok_def)
  show ?thesis
    by (simp add: match_link_type_def ebind_def find_exact [OF n] find_substring [OF n]
        find_label [OF assms] split: list.splits)
qed


lemma id_and_name_ok:
  "transition_ok t \<Longrightarrow> id_and_name t = Inr (field_of t ''id'', field_of t ''name'')"
  by (auto simp: transition_ok_def id_and_name_def str_field_def ebind_def field_of_def
      split: json.splits option.splits)

lemma exact_tier_subset: "x \<in> set (exact_tier S q c) \<Longrightarrow> x \<in> set c"
  by (simp add: exact_tier_def)

lemma substring_tier_subset: "x \<in> set (substring_tier S q c) \<Longrightarrow> x \<in> set c"
  by (simp add: substring_tier_def)


lemma match_transition_tiers:
  assumes "\<And>e. e \<in> set c \<Longrightarrow> transition_ok e"
  shows "match_transition S q (JArr c) =
         Inr (map_option (\<lambda>t. (field_of t ''id'', field_of t ''name''))
                (first_tier_first [exact_tier S q c, substring_tier S q c]))"
proof -
  have n: "\<And>e. e \<in> set c \<Longrightarrow> str_field e ''name'' \<noteq> None"
    using assms by (simp add: transition_ok_def)
  have e: "id_and_name y = Inr (field_of y ''id'', field_of y ''name'')"
    if "exact_tier S q c = y # ys" for y ys
    using that assms [of y] exact_tier_subset [of y S q c] by (simp add: id_and_name_ok)
  have s: "id_and_name y = Inr (field_of y ''id'', field_of y ''name'')"
    if "substring_tier S q c = y # ys" for y ys
    using that assms [of y] substring_tier_subset [of y S q c] by (simp add: id_and_name_ok)
  show ?thesis
    by (auto simp: match_transition_def ebind_def find_exact [OF n] find_substring [OF n] e s
        split: list.splits)
qed

section \<open>The transport and the event trace\<close>

lemma requests_of_append: "requests_of (w @ es) = requests_of w @ requests_of es"
  by (induction w rule: requests_of.induct) auto

lemma printed_append: "printed (w @ es) = printed w @ printed es"
  by (induction w rule: printed.induct) auto

lemma linker_request_json:
  "server S (requests_of w) (Request m u (attach d)) = Status st (Json j) \<Longrightarrow> st \<noteq> 204 \<Longrightarrow>
   linker_make_request S u m d w = (Inr j, w @ [Sent (Request m u (attach d))])"
  by (simp add: linker_make_request_def)

lemma transitioner_request_json:
  "server S (requests_of w) (Request m u (attach d)) = Status st (Json j) \<Longrightarrow> st \<noteq> 204 \<Longrightarrow>
   transitioner_make_request S u m d w = (Inr j, w @ [Sent (Request m u (attach d))])"
  by (simp add: transitioner_make_request_def)

lemma find_link_type_fetched:
  assumes "server S (requests_of w) (Request GET (base_url S @ ''/issueLinkType'') None)
             = Status st (Json response)"
    and "st \<noteq> 204"
    and "py_get response ''issueLinkTypes'' (JArr []) = Inr link_types"
  shows "find_link_type S query w =
         (match_link_type S query link_types,
          w @ [Sent (Request GET (base_url S @ ''/issueLinkType'') None)])"
  using assms linker_request_json [of S w GET "base_url S @ ''/issueLinkType''" None st response]
  by (simp add: find_link_type_def get_link_types_def bind_def lift_def attach_def)

lemma find_transition_fetched:
  assumes "server S (requests_of w)
             (Request GET (base_url S @ ''/issue/'' @ issue_key @ ''/transitions'') None)
             = Status st (Json response)"
    and "st \<noteq> 204"
    and "py_get response ''transitions'' (JArr []) = Inr transitions"
  shows "find_transition S issue_key query w =
         (match_transition S query transitions,
          w @ [Sent (Request GET (base_url S @ ''/issue/'' @ issue_key @ ''/transitions'') None)])"
  using assms transitioner_request_json
    [of S w GET "base_url S @ ''/issue/'' @ issue_key @ ''/transitions''" None st response]
  by (simp add: find_transition_def get_transitions_def bind_def lift_def attach_def)

text \<open>
  The example of the specification, for any \<^verbatim>\<open>str.lower()\<close> that lower-cases the four strings
  involved as Python does.
\<close>

lemma example_block:
  assumes "str_lower S ''block'' = ''block''" and "str_lower S ''Blocks'' = ''blocks''"
    and "str_lower S ''Blocked by'' = ''blocked by''" and "str_lower S ''Relates'' = ''relates''"
  shows "match_link_type S ''block'' (JArr [lt_blocks, lt_blocked_by, lt_relates])
         = Inr (Some lt_blocks)"
  using assms
  by (simp add: match_link_type_def ebind_def name_is_def name_has_def lt_blocks_def
      lt_blocked_by_def lt_relates_def)

text \<open>
  C3 (resolver tier ordering). When the catalog is fetched and its entries are well formed,
  \<^verbatim>\<open>find_link_type\<close> returns the first entry of the first non-empty tier among exact name,
  name containing the query and label containing the query, and \<^verbatim>\<open>find_transition\<close> does
  the same with the first two tiers, returning the id and the name of the entry; both send
  the one GET that fetches the catalog. This holds whatever function \<^verbatim>\<open>str.lower()\<close> is. For
  the catalog Blocks, Blocked by, Relates the query "block" resolves to Blocks, given how
  \<^verbatim>\<open>str.lower()\<close> lower-cases the query and the three names.
\<close>

theorem resolver_tier_ordering:
  "(server S (requests_of w) (Request GET (base_url S @ ''/issueLinkType'') None)
      = Status st (Json response)
    \<and> st \<noteq> 204
    \<and> py_get response ''issueLinkTypes'' (JArr []) = Inr (JArr catalog)
    \<and> (\<forall>e \<in> set catalog. link_type_ok e)
    \<longrightarrow> find_link_type S query w =
        (Inr (first_tier_first
                [exact_tier S query catalog, substring_tier S query catalog,
                 label_tier S query catalog]),
         w @ [Sent (Request GET (base_url S @ ''/issueLinkType'') None)]))
   \<and> (server S (requests_of w)
        (Request GET (base_url S @ ''/issue/'' @ issue_key @ ''/transitions'') None)
      = Status st' (Json response')
    \<and> st' \<noteq> 204
    \<and> py_get response' ''transitions'' (JArr []) = Inr (JArr transitions)
    \<and> (\<forall>t \<in> set transitions. transition_ok t)
    \<longrightarrow> find_transition S issue_key query w =
        (Inr (map_option (\<lambda>t. (field_of t ''id'', field_of t ''name''))
                (first_tier_first
                   [exact_tier S query transitions, substring_tier S query transitions])),
         w @ [Sent (Request GET (base_url S @ ''/issue/'' @ issue_key @ ''/transitions'')
                      None)]))
   \<and> (str_lower S ''block'' = ''block'' \<and> str_lower S ''Blocks'' = ''blocks''
      \<and> str_lower S ''Blocked by'' = ''blocked by'' \<and> str_lower S ''Relates'' = ''relates''
    \<longrightarrow> match_link_type S ''block'' (JArr [lt_blocks, lt_blocked_by, lt_relates])
        = Inr (Some lt_blocks))"
  using find_link_type_fetched [of S w st response "JArr catalog" query]
    find_transition_fetched [of S w issue_key st' response' "JArr transitions" query]
    match_link_type_tiers [of catalog S query] match_transition_tiers [of transitions S query]
    example_block [of S]
  by simp

theorem resolver_tier_ordering_witness:
  "find_link_type demo ''block'' [] =
     (Inr (Some lt_blocks), [Sent (Request GET (demo_url @ ''/issueLinkType'') None)])
   \<and> find_transition demo ''A-1'' ''done'' [] =
     (Inr (Some (JStr ''31'', JStr ''Done'')),
      [Sent (Request GET (demo_url @ ''/issue/A-1/transitions'') None)])
   \<and> match_link_type demo ''block'' (JArr [lt_blocks, lt_blocked_by, lt_relates])
     = Inr (Some lt_blocks)"
proof -
  have l: "find_link_type demo ''block'' [] =
        (Inr (first_tier_first
                [exact_tier demo ''block'' demo_catalog, substring_tier demo ''block'' demo_catalog,
                 label_tier demo ''block'' demo_catalog]),
         [] @ [Sent (Request GET (base_url demo @ ''/issueLinkType'') None)])"
    by (rule resolver_tier_ordering [where S = demo and w = "[]" and st = 200
          and response = "JObj [(''issueLinkTypes'', JArr demo_catalog)]"
          and catalog = demo_catalog and query = "''block''", THEN conjunct1, THEN mp])
      code_simp
  have t: "find_transition demo ''A-1'' ''done'' [] =
        (Inr (map_option (\<lambda>t. (field_of t ''id'', field_of t ''name''))
                (first_tier_first
                   [exact_tier demo ''done'' [tr_start, tr_done],
                    substring_tier demo ''done'' [tr_start, tr_done]])),
         [] @ [Sent (Request GET (base_url demo @ ''/issue/'' @ ''A-1'' @ ''/transitions'')
                      None)])"
    by (rule resolver_tier_ordering [where S = demo and w = "[]" and st' = 200
          and issue_key = "''A-1''"
          and response' = "JObj [(''transitions'', JArr [tr_start, tr_done])]"
          and transitions = "[tr_start, tr_done]" and query = "''done''",
          THEN conjunct2, THEN conjunct1, THEN mp])
      code_simp
  have e: "match_link_type demo ''block'' (JArr [lt_blocks, lt_blocked_by, lt_relates])
        = Inr (Some lt_blocks)"
    by (rule resolver_tier_ordering [where S = demo, THEN conjunct2, THEN conjunct2, THEN mp])
      code_simp
  have lv: "first_tier_first
                [exact_tier demo ''block'' demo_catalog, substring_tier demo ''block'' demo_catalog,
                 label_tier demo ''block'' demo_catalog] = Some lt_blocks"
    by code_simp
  have tv: "map_option (\<lambda>t. (field_of t ''id'', field_of t ''name''))
                (first_tier_first
                   [exact_tier demo ''done'' [tr_start, tr_done],
                    substring_tier demo ''done'' [tr_start, tr_done]])
            = Some (JStr ''31'', JStr ''Done'')"
    by code_simp
  have bu: "base_url demo = demo_url"
    by (simp add: demo_def)
  show ?thesis
    using l [unfolded lv] t [unfolded tv] e by (simp add: bu)
qed

section \<open>The empty query and the first entry\<close>














section \<open>What a run sends\<close>

lemma sends_only_lift: "sends_only (lift x) w Q"
  by (simp add: sends_only_def lift_def)

lemma sends_only_print: "sends_only (print s) w Q"
  by (simp add: sends_only_def print_def)

lemma sends_only_print_err: "sends_only (print_err p e) w Q"
  by (simp add: sends_only_def print_err_def)

lemma sends_only_sys_exit: "sends_only (sys_exit c) w Q"
  by (simp add: sends_only_def sys_exit_def)

lemma sends_only_bind:
  assumes "sends_only m w Q"
    and "\<And>x w1. m w = (Inr x, w1) \<Longrightarrow> sends_only (f x) w1 Q"
  shows "sends_only (bind m f) w Q"
proof (cases "m w")
  case (Pair r w1)
  from assms(1) Pair obtain es where es: "w1 = w @ es" "list_all Q (requests_of es)"
    by (auto simp: sends_only_def)
  show ?thesis
  proof (cases r)
    case (Inl e)
    with Pair es show ?thesis by (auto simp: sends_only_def bind_def)
  next
    case (Inr x)
    with Pair assms(2) obtain es2 where "snd (f x w1) = w1 @ es2" "list_all Q (requests_of es2)"
      by (auto simp: sends_only_def)
    with Pair Inr es show ?thesis
      by (auto simp: sends_only_def bind_def requests_of_append)
  qed
qed

lemma sends_only_try_except:
  assumes "sends_only m w Q"
    and "\<And>e w1. m w = (Inl e, w1) \<Longrightarrow> sends_only (h e) w1 Q"
  shows "sends_only (try_except m h) w Q"
proof (cases "m w")
  case (Pair r w1)
  from assms(1) Pair obtain es where es: "w1 = w @ es" "list_all Q (requests_of es)"
    by (auto simp: sends_only_def)
  show ?thesis
  proof (cases r)
    case (Inr x)
    with Pair es show ?thesis by (auto simp: sends_only_def try_except_def)
  next
    case (Inl e)
    with Pair assms(2) obtain es2 where "snd (h e w1) = w1 @ es2" "list_all Q (requests_of es2)"
      by (auto simp: sends_only_def)
    with Pair Inl es show ?thesis
      by (cases e) (auto simp: sends_only_def try_except_def requests_of_append)
  qed
qed

lemma sends_only_for_each:
  assumes "\<And>x w1. x \<in> set xs \<Longrightarrow> sends_only (f x) w1 Q"
  shows "sends_only (for_each f xs) w Q"
  using assms
proof (induction xs arbitrary: w)
  case Nil
  show ?case by (simp add: sends_only_lift)
next
  case (Cons x xs)
  show ?case
    by (simp, rule sends_only_bind) (use Cons in auto)
qed

lemma sends_only_error_exit: "sends_only (error_exit p e) w Q"
  unfolding error_exit_def
  by (intro sends_only_bind sends_only_print_err sends_only_sys_exit)

lemma sends_only_linker_request:
  "Q (Request m u (attach d)) \<Longrightarrow> sends_only (linker_make_request S u m d) w Q"
  by (auto simp: sends_only_def linker_make_request_def Let_def
      split: reply.splits body.splits)

lemma sends_only_transitioner_request:
  "Q (Request m u (attach d)) \<Longrightarrow> sends_only (transitioner_make_request S u m d) w Q"
  by (auto simp: sends_only_def transitioner_make_request_def Let_def
      split: reply.splits body.splits)

lemmas sends_only_intros = sends_only_lift sends_only_print sends_only_print_err
  sends_only_sys_exit sends_only_bind sends_only_try_except sends_only_for_each
  sends_only_error_exit sends_only_linker_request sends_only_transitioner_request

lemma execute_link_dry_reads:
  "sends_only (execute_link S src tgt q c True) w (\<lambda>r. verb r = GET)"
  unfolding execute_link_def find_link_type_def get_link_types_def linker_get_ticket_def
  by (auto intro!: sends_only_intros split: option.splits simp: attach_def)

lemma execute_transition_dry_reads:
  "sends_only (execute_transition S k t True) w (\<lambda>r. verb r = GET)"
  unfolding execute_transition_def find_transition_def get_transitions_def
    transitioner_get_ticket_def show_transition_def
  by (auto intro!: sends_only_intros split: option.splits simp: attach_def)

lemma mutation_extends_refl: "mutation_extends m m w"
  by (simp add: mutation_extends_def extended_by_mutation_def)

lemma mutation_extends_bind:
  assumes "\<And>x w1. m w = (Inr x, w1) \<Longrightarrow> mutation_extends (f x) (g x) w1"
  shows "mutation_extends (bind m f) (bind m g) w"
proof (cases "m w")
  case (Pair r w1)
  show ?thesis
  proof (cases r)
    case (Inl e)
    with Pair show ?thesis
      by (simp add: mutation_extends_def extended_by_mutation_def bind_def)
  next
    case (Inr x)
    with Pair assms [of x w1] show ?thesis
      by (simp add: mutation_extends_def bind_def)
  qed
qed

lemma error_exit_requests: "requests_of (snd (error_exit p e w)) = requests_of w"
  by (simp add: error_exit_def bind_def print_err_def sys_exit_def requests_of_append)

lemma mutation_extends_try_except:
  assumes "mutation_extends m m' w"
  shows "mutation_extends (try_except m (error_exit p)) (try_except m' (error_exit p)) w"
proof -
  have "requests_of (snd (try_except k (error_exit p) w)) = requests_of (snd (k w))" for k :: "'a io"
    by (auto simp: try_except_def error_exit_requests split: prod.splits sum.splits exc.splits)
  then show ?thesis
    using assms by (simp add: mutation_extends_def)
qed

lemma mutation_extends_leaf:
  assumes "requests_of (snd (d w)) = requests_of w"
    and "\<exists>rs. requests_of (snd (e w)) = requests_of w @ rs \<and> (rs = [] \<or> mutating (hd rs))"
  shows "mutation_extends d e w"
  using assms by (simp add: mutation_extends_def extended_by_mutation_def)

lemma link_leaf:
  "mutation_extends (print s) (bind (lift x) (\<lambda>n. bind (create_link S a b n c) (\<lambda>_. print s'))) w"
  by (auto simp: mutation_extends_def extended_by_mutation_def bind_def lift_def create_link_def
      print_def linker_make_request_def Let_def requests_of_append mutating_def
      split: sum.splits prod.splits reply.splits body.splits if_splits)

lemma execute_link_dry_prefix:
  "mutation_extends (execute_link S src tgt q c True) (execute_link S src tgt q c False) w"
  unfolding execute_link_def
  by (auto intro!: mutation_extends_try_except mutation_extends_bind link_leaf
      mutation_extends_refl split: option.splits)

lemma transition_leaf:
  "mutation_extends (bind (print a) (\<lambda>_. print b))
     (bind (print c) (\<lambda>_. bind (transition_ticket S k i) (\<lambda>_.
        bind (transitioner_get_ticket S k) (\<lambda>u. bind (lift (f u)) (\<lambda>n. print (g n)))))) w"
  by (auto simp: mutation_extends_def extended_by_mutation_def bind_def lift_def
      transition_ticket_def transitioner_get_ticket_def
      print_def transitioner_make_request_def Let_def requests_of_append mutating_def
      split: sum.splits prod.splits reply.splits body.splits if_splits)

lemma execute_transition_dry_prefix:
  "mutation_extends (execute_transition S k t True) (execute_transition S k t False) w"
  unfolding execute_transition_def
  by (auto intro!: mutation_extends_try_except mutation_extends_bind transition_leaf
      mutation_extends_refl split: option.splits)


lemma takeWhile_extended:
  assumes "list_all (\<lambda>r. \<not> mutating r) a" and "extended_by_mutation a b"
  shows "a = takeWhile (\<lambda>r. \<not> mutating r) b"
proof -
  from assms(2) obtain rs where rs: "b = a @ rs" "rs = [] \<or> mutating (hd rs)"
    by (auto simp: extended_by_mutation_def)
  then have "takeWhile (\<lambda>r. \<not> mutating r) rs = []"
    by (cases rs) auto
  with assms(1) rs(1) show ?thesis
    by (simp add: list_all_iff takeWhile_append2)
qed

lemma get_not_mutating:
  "list_all (\<lambda>r. verb r = GET) rs \<Longrightarrow> list_all (\<lambda>r. \<not> mutating r) rs"
  by (induction rs) (auto simp: mutating_def)

text \<open>
  C5 (dry run). Whatever the server answers, a dry run of link creation or of a transition
  sends GET requests only, and they are the requests of the run without the flag up to its
  first mutating request.
\<close>

theorem dry_run_no_mutation:
  "list_all (\<lambda>r. verb r = GET) (requests_of (snd (execute_link S src tgt q c True [])))
   \<and> requests_of (snd (execute_link S src tgt q c True []))
       = takeWhile (\<lambda>r. \<not> mutating r) (requests_of (snd (execute_link S src tgt q c False [])))
   \<and> list_all (\<lambda>r. verb r = GET) (requests_of (snd (execute_transition S k t True [])))
   \<and> requests_of (snd (execute_transition S k t True []))
       = takeWhile (\<lambda>r. \<not> mutating r) (requests_of (snd (execute_transition S k t False [])))"
proof -
  have l: "list_all (\<lambda>r. verb r = GET) (requests_of (snd (execute_link S src tgt q c True [])))"
    using execute_link_dry_reads [of S src tgt q c "[]"] by (auto simp: sends_only_def)
  have t: "list_all (\<lambda>r. verb r = GET) (requests_of (snd (execute_transition S k t True [])))"
    using execute_transition_dry_reads [of S k t "[]"] by (auto simp: sends_only_def)
  show ?thesis
    using l t takeWhile_extended [OF get_not_mutating [OF l]]
      takeWhile_extended [OF get_not_mutating [OF t]]
      execute_link_dry_prefix [of S src tgt q c "[]"]
      execute_transition_dry_prefix [of S k t "[]"]
    by (simp add: mutation_extends_def)
qed

theorem dry_run_no_mutation_witness:
  "list_all (\<lambda>r. verb r = GET)
     (requests_of (snd (execute_link demo ''A-1'' ''B-2'' ''blocks'' None True [])))
   \<and> requests_of (snd (execute_link demo ''A-1'' ''B-2'' ''blocks'' None True []))
       = takeWhile (\<lambda>r. \<not> mutating r)
           (requests_of (snd (execute_link demo ''A-1'' ''B-2'' ''blocks'' None False [])))
   \<and> requests_of (snd (execute_link demo ''A-1'' ''B-2'' ''blocks'' None False [])) =
       [Request GET (demo_url @ ''/issueLinkType'') None,
        Request GET (demo_url @ ''/issue/A-1?fields=summary,status,issuelinks'') None,
        Request GET (demo_url @ ''/issue/B-2?fields=summary,status,issuelinks'') None,
        Request POST (demo_url @ ''/issueLink'')
          (Some (create_link_data ''A-1'' ''B-2'' (JStr ''Blocks'') None))]
   \<and> list_all (\<lambda>r. verb r = GET)
       (requests_of (snd (execute_transition demo ''A-1'' ''done'' True [])))
   \<and> requests_of (snd (execute_transition demo ''A-1'' ''done'' True []))
       = takeWhile (\<lambda>r. \<not> mutating r)
           (requests_of (snd (execute_transition demo ''A-1'' ''done'' False [])))
   \<and> requests_of (snd (execute_transition demo ''A-1'' ''done'' False [])) =
       [Request GET (demo_url @ ''/issue/A-1'') None,
        Request GET (demo_url @ ''/issue/A-1/transitions'') None,
        Request GET (demo_url @ ''/issue/A-1/transitions'') None,
        Request POST (demo_url @ ''/issue/A-1/transitions'')
          (Some (JObj [(''transition'', JObj [(''id'', JStr ''31'')])])),
        Request GET (demo_url @ ''/issue/A-1'') None]"
proof -
  have l: "requests_of (snd (execute_link demo ''A-1'' ''B-2'' ''blocks'' None False [])) =
       [Request GET (demo_url @ ''/issueLinkType'') None,
        Request GET (demo_url @ ''/issue/A-1?fields=summary,status,issuelinks'') None,
        Request GET (demo_url @ ''/issue/B-2?fields=summary,status,issuelinks'') None,
        Request POST (demo_url @ ''/issueLink'')
          (Some (create_link_data ''A-1'' ''B-2'' (JStr ''Blocks'') None))]"
    by code_simp
  have t: "requests_of (snd (execute_transition demo ''A-1'' ''done'' False [])) =
       [Request GET (demo_url @ ''/issue/A-1'') None,
        Request GET (demo_url @ ''/issue/A-1/transitions'') None,
        Request GET (demo_url @ ''/issue/A-1/transitions'') None,
        Request POST (demo_url @ ''/issue/A-1/transitions'')
          (Some (JObj [(''transition'', JObj [(''id'', JStr ''31'')])])),
        Request GET (demo_url @ ''/issue/A-1'') None]"
    by code_simp
  show ?thesis
    using dry_run_no_mutation [of demo "''A-1''" "''B-2''" "''blocks''" None "''A-1''" "''done''"]
      l t
    by blast
qed

section \<open>Creating a link\<close>

lemma bindE:
  assumes "bind m f w = (r, w')"
  obtains e where "m w = (Inl e, w')" "r = Inl e"
  | x w1 where "m w = (Inr x, w1)" "f x w1 = (r, w')"
  using assms by (auto simp: bind_def split: prod.splits sum.splits)

lemma try_except_returns:
  assumes "try_except m (error_exit p) w = (Inr x, w')"
  shows "m w = (Inr x, w')"
  using assms
  by (auto simp: try_except_def error_exit_def bind_def print_err_def sys_exit_def
      split: prod.splits sum.splits exc.splits)

lemma linker_request_trace:
  "linker_make_request S u m d w = (r, w') \<Longrightarrow> w' = w @ [Sent (Request m u (attach d))]"
  by (auto simp: linker_make_request_def Let_def split: reply.splits if_splits body.splits)

lemma transitioner_request_trace:
  "transitioner_make_request S u m d w = (r, w') \<Longrightarrow> w' = w @ [Sent (Request m u (attach d))]"
  by (auto simp: transitioner_make_request_def Let_def split: reply.splits if_splits body.splits)

lemma truthy_create_link_data:
  "attach (Some (create_link_data src tgt name c)) = Some (create_link_data src tgt name c)"
  by (simp add: attach_def create_link_data_def)

lemma execute_link_sends:
  "sends_only (execute_link S src tgt q c dry) w
     (\<lambda>req. verb req = GET
        \<or> (\<exists>lt name w1. find_link_type S q w = (Inr (Some lt), w1)
              \<and> py_getitem lt ''name'' = Inr name
              \<and> req = Request POST (base_url S @ ''/issueLink'')
                        (Some (create_link_data src tgt name c))))"
  unfolding execute_link_def
  apply (rule sends_only_try_except)
   apply (rule sends_only_bind)
    apply (simp add: find_link_type_def get_link_types_def)
    apply (intro sends_only_intros)
    apply (simp add: attach_def)
   apply (auto intro!: sends_only_intros split: option.splits
      simp: linker_get_ticket_def create_link_def truthy_create_link_data lift_def)[1]
  apply (rule sends_only_error_exit)
  done

lemma execute_link_done:
  assumes "execute_link S src tgt q c False w = (Inr (), w')"
  shows "\<exists>lt name w1 w2. find_link_type S q w = (Inr (Some lt), w1)
           \<and> py_getitem lt ''name'' = Inr name
           \<and> w' = w2 @ [Sent (Request POST (base_url S @ ''/issueLink'')
                                (Some (create_link_data src tgt name c))),
                        Stdout (nl @ ''Link created successfully!'')]"
  using try_except_returns [OF assms [unfolded execute_link_def]]
  apply (elim bindE)
   apply simp
  apply (simp split: option.splits if_splits)
    apply (auto elim!: bindE simp: sys_exit_def)[2]
  apply (elim bindE; simp)
  apply (auto simp: create_link_def lift_def print_def truthy_create_link_data
      elim!: bindE dest!: linker_request_trace)
  done

lemma create_link_data_slots:
  "py_path (create_link_data src tgt name c) [''inwardIssue'', ''key''] = Inr (JStr src)
   \<and> py_path (create_link_data src tgt name c) [''outwardIssue'', ''key''] = Inr (JStr tgt)
   \<and> py_path (create_link_data src tgt name c) [''type'', ''name''] = Inr name"
  by (simp add: create_link_data_def ebind_def)

text \<open>
  C2 (write-path slot swap). Whatever the server answers, every request of a link creation
  that is not a GET is the POST to \<^verbatim>\<open>/issueLink\<close> whose payload is \<open>create_link_data\<close> for
  the source, the target and the name of the link type that \<^verbatim>\<open>find_link_type\<close> resolved; a
  creation that returns normally ends with that POST and the success line; and the payload
  holds the source key in the inward-issue slot, the target key in the outward-issue slot
  and the resolved name in the type name field.
\<close>

theorem create_payload_slots:
  "(req \<in> set (requests_of (snd (execute_link S src tgt q c dry []))) \<and> verb req \<noteq> GET
    \<longrightarrow> (\<exists>lt name w1. find_link_type S q [] = (Inr (Some lt), w1)
           \<and> py_getitem lt ''name'' = Inr name
           \<and> req = Request POST (base_url S @ ''/issueLink'')
                     (Some (create_link_data src tgt name c))))
   \<and> (execute_link S src tgt q c False [] = (Inr (), w')
    \<longrightarrow> (\<exists>lt name w1 w2. find_link_type S q [] = (Inr (Some lt), w1)
           \<and> py_getitem lt ''name'' = Inr name
           \<and> w' = w2 @ [Sent (Request POST (base_url S @ ''/issueLink'')
                                (Some (create_link_data src tgt name c))),
                        Stdout (nl @ ''Link created successfully!'')]))
   \<and> py_path (create_link_data src tgt n c) [''inwardIssue'', ''key''] = Inr (JStr src)
   \<and> py_path (create_link_data src tgt n c) [''outwardIssue'', ''key''] = Inr (JStr tgt)
   \<and> py_path (create_link_data src tgt n c) [''type'', ''name''] = Inr n"
proof -
  have "\<forall>r \<in> set (requests_of (snd (execute_link S src tgt q c dry []))).
          verb r = GET
          \<or> (\<exists>lt name w1. find_link_type S q [] = (Inr (Some lt), w1)
                \<and> py_getitem lt ''name'' = Inr name
                \<and> r = Request POST (base_url S @ ''/issueLink'')
                         (Some (create_link_data src tgt name c)))"
    using execute_link_sends [of S src tgt q c dry "[]"]
    by (auto simp: sends_only_def list_all_iff)
  then show ?thesis
    using execute_link_done [of S src tgt q c "[]" w'] create_link_data_slots [of src tgt n c]
    by blast
qed

theorem create_payload_slots_witness:
  "Request POST (demo_url @ ''/issueLink'')
     (Some (JObj [(''type'', JObj [(''name'', JStr ''Blocks'')]),
                  (''outwardIssue'', JObj [(''key'', JStr ''B-2'')]),
                  (''inwardIssue'', JObj [(''key'', JStr ''A-1'')])]))
     \<in> set (requests_of (snd (execute_link demo ''A-1'' ''B-2'' ''block'' None False [])))
   \<and> (\<exists>lt name w1. find_link_type demo ''block'' [] = (Inr (Some lt), w1)
         \<and> py_getitem lt ''name'' = Inr name
         \<and> Request POST (demo_url @ ''/issueLink'')
              (Some (JObj [(''type'', JObj [(''name'', JStr ''Blocks'')]),
                           (''outwardIssue'', JObj [(''key'', JStr ''B-2'')]),
                           (''inwardIssue'', JObj [(''key'', JStr ''A-1'')])]))
            = Request POST (base_url demo @ ''/issueLink'')
                (Some (create_link_data ''A-1'' ''B-2'' name None)))"
proof -
  have m: "Request POST (demo_url @ ''/issueLink'')
     (Some (JObj [(''type'', JObj [(''name'', JStr ''Blocks'')]),
                  (''outwardIssue'', JObj [(''key'', JStr ''B-2'')]),
                  (''inwardIssue'', JObj [(''key'', JStr ''A-1'')])]))
     \<in> set (requests_of (snd (execute_link demo ''A-1'' ''B-2'' ''block'' None False [])))"
    by code_simp
  show ?thesis
    using m create_payload_slots [where S = demo and src = "''A-1''" and tgt = "''B-2''"
        and q = "''block''" and c = None and dry = False
        and req = "Request POST (demo_url @ ''/issueLink'')
     (Some (JObj [(''type'', JObj [(''name'', JStr ''Blocks'')]),
                  (''outwardIssue'', JObj [(''key'', JStr ''B-2'')]),
                  (''inwardIssue'', JObj [(''key'', JStr ''A-1'')])]))"]
    by simp
qed

section \<open>Listing the links of a ticket\<close>



lemma try_except_tail:
  assumes "\<exists>t. snd (m w) = pre @ t \<and> requests_of t = []"
  shows "\<exists>r rest. try_except m (error_exit p) w = (r, pre @ rest) \<and> requests_of rest = []"
proof -
  from assms obtain t where t: "snd (m w) = pre @ t" "requests_of t = []"
    by blast
  obtain res w' where m: "m w = (res, w')"
    by fastforce
  show ?thesis
  proof (cases res)
    case (Inr x)
    with m t show ?thesis by (simp add: try_except_def)
  next
    case (Inl e)
    with m t show ?thesis
      by (cases e)
        (simp_all add: try_except_def error_exit_def bind_def print_err_def sys_exit_def
          requests_of_append)
  qed
qed

lemma try_except_tail2:
  assumes "\<exists>t. snd (m w) = w0 @ mid @ t \<and> requests_of t = []"
  shows "\<exists>r rest. try_except m (error_exit p) w = (r, w0 @ mid @ rest)
           \<and> requests_of rest = []"
  using try_except_tail [of m w "w0 @ mid" p] assms by simp














end
